theory Spec2Isabelle
  imports Complex_Main "HOL-Library.Multiset" "HOL-Library.Log_Nat"
begin

section \<open>Numbers of the host language\<close>

text \<open>
  The dashboard is TypeScript; its \<^verbatim>\<open>number\<close> values (meter values, machine numbers,
  machine counts, derived totals) are IEEE 754 binary64 values.  Every finite binary64
  value is a rational, and the model computes with rationals: an operation whose exact
  result need not be a binary64 value is followed by the rounding \<open>binary64\<close> (to the
  nearest value, ties to the even significand, with gradual underflow).  Infinity, NaN
  and the sign of zero are outside the model; \<open>binary64\<close> is meant for arguments below
  \<open>2 ^ 1024\<close> in magnitude, and \<open>deriveBatch\<close> does not leave that range on a finite
  meter value (its quotients are not larger than the meter value).

  \<open>ilog2 x\<close> is the exponent \<open>e\<close> with \<open>2 ^ e \<le> x < 2 ^ (e + 1)\<close> of a positive \<open>x\<close>.
\<close>

definition ilog2 :: "rat \<Rightarrow> int" where
  "ilog2 x = (if 1 \<le> x then bitlen \<lfloor>x\<rfloor> - 1 else - bitlen (\<lceil>1 / x\<rceil> - 1))"

definition roundHalfEven :: "rat \<Rightarrow> int" where
  "roundHalfEven x =
     (let f = \<lfloor>x\<rfloor>; r = x - of_int f
      in if r < 1 / 2 then f else if 1 / 2 < r then f + 1 else if even f then f else f + 1)"

definition binary64 :: "rat \<Rightarrow> rat" where
  "binary64 x =
     (if x = 0 then 0
      else let e = max (ilog2 \<bar>x\<bar>) (- 1022);
               u = 2 powi (e - 52)
           in sgn x * (u * of_int (roundHalfEven (\<bar>x\<bar> / u))))"


text \<open>The quotient \<^verbatim>\<open>x / y\<close> of two numbers is the exact quotient, rounded.\<close>

definition divide64 :: "rat \<Rightarrow> rat \<Rightarrow> rat" where
  "divide64 x y = binary64 (x / y)"

text \<open>
  \<^verbatim>\<open>Math.round\<close> returns the nearest integer and resolves a tie towards plus infinity;
  the result is exact.  \<^verbatim>\<open>x.toFixed(2)\<close> prints the integer \<open>n\<close> for which \<open>n / 100\<close> is
  nearest to the magnitude of the exact value of \<open>x\<close>, the larger one on a tie, with the
  sign of \<open>x\<close> in front; \<open>toFixed2 x\<close> is the decimal number printed.  \<^verbatim>\<open>parseFloat\<close> reads
  a decimal back as the nearest binary64 value, which is \<open>binary64\<close> again.
\<close>

definition Math_round :: "rat \<Rightarrow> rat" where
  "Math_round x = of_int \<lfloor>x + 1 / 2\<rfloor>"

definition toFixed2 :: "rat \<Rightarrow> rat" where
  "toFixed2 x =
     (if x < 0 then - (of_int \<lfloor>(- x) * 100 + 1 / 2\<rfloor> / 100)
      else of_int \<lfloor>x * 100 + 1 / 2\<rfloor> / 100)"





section \<open>Domain records (types.ts)\<close>

datatype Theme = light | dark

datatype BatchStatus = InProgress | Completed | Delayed

record BatchType =
  type_id :: string
  type_batchNumber :: string
  type_color :: string

text \<open>Optional fields (\<^verbatim>\<open>name?\<close>, \<^verbatim>\<open>color?\<close>, \<^verbatim>\<open>image?\<close>) are options.\<close>

record Batch =
  batch_id :: string
  name :: "string option"
  batchNumber :: string
  machineNumber :: rat
  startDate :: string
  endDate :: string
  meterValue :: rat
  status :: BatchStatus
  color :: "string option"
  image_url :: "string option"

text \<open>\<^verbatim>\<open>interface CalculatedBatch extends Batch\<close>: the record extends \<open>Batch\<close>.\<close>

record CalculatedBatch = Batch +
  ftotal :: rat
  average :: rat

record Settings =
  companyName :: string
  numberOfMachines :: rat


section \<open>Derived metrics (AppContent, \<^verbatim>\<open>calculatedBatches\<close>)\<close>

text \<open>
  The callback that \<^verbatim>\<open>calculatedBatches\<close> maps over the batch list:
  \<^verbatim>\<open>
  const ftotal = Math.round(batch.meterValue / 4);
  const average = ftotal > 0 ? parseFloat((batch.meterValue / ftotal).toFixed(2)) : 0;
  return { ...batch, ftotal, average };
  \<close>
  Both quotients are binary64 quotients, and \<^verbatim>\<open>parseFloat\<close> rounds the printed decimal.
\<close>

definition deriveBatch :: "Batch \<Rightarrow> CalculatedBatch" where
  "deriveBatch batch =
     (let ft = Math_round (divide64 (meterValue batch) 4);
          av = (if ft > 0 then binary64 (toFixed2 (divide64 (meterValue batch) ft)) else 0)
      in Batch.extend batch (CalculatedBatch.fields ft av))"


section \<open>Demonstration data (\<^verbatim>\<open>MOCK_BATCHES\<close>, \<^verbatim>\<open>MOCK_BATCH_TYPES\<close>)\<close>

text \<open>
  \<^verbatim>\<open>MOCK_BATCHES\<close> has type \<^verbatim>\<open>Omit<Batch, 'status'>[]\<close>; the only place that reads it
  adds \<^verbatim>\<open>status: 'In Progress'\<close> to every entry, so the entries are given here with
  that status already set (\<open>seeded_batches\<close> below is this list).  A decimal literal
  denotes the nearest binary64 value: \<^verbatim>\<open>1250.5\<close> and \<^verbatim>\<open>950.0\<close> are binary64 values
  themselves, while \<^verbatim>\<open>2100.2\<close>, \<^verbatim>\<open>3500.8\<close> and \<^verbatim>\<open>2200.7\<close> denote the three quotients
  by \<open>2 ^ 40 = 1099511627776\<close> written out below (lemma \<open>mock_literals\<close>).
\<close>

definition mock_batch :: "string \<Rightarrow> string \<Rightarrow> string \<Rightarrow> rat \<Rightarrow> string \<Rightarrow> string \<Rightarrow> rat \<Rightarrow> string \<Rightarrow> Batch" where
  "mock_batch i n bn mn sd ed mv c =
     \<lparr>batch_id = i, name = Some n, batchNumber = bn, machineNumber = mn, startDate = sd,
      endDate = ed, meterValue = mv, status = InProgress, color = Some c, image_url = None\<rparr>"

definition MOCK_BATCHES :: "Batch list" where
  "MOCK_BATCHES =
     [mock_batch ''1'' ''Autumn Collection Run 1'' ''ACR001'' 1 ''2023-10-01'' ''2023-10-05'' (12505 / 10) ''#16a34a'',
      mock_batch ''2'' ''Winter Fabric Prep'' ''WFP001'' 2 ''2023-10-03'' ''2023-10-08'' (2309194320655155 / 1099511627776) ''#16a34a'',
      mock_batch ''3'' ''Spring Pattern Test'' ''SPT001'' 1 ''2023-10-10'' ''2023-10-15'' 950 ''#f59e0b'',
      mock_batch ''4'' ''Holiday Special Edition'' ''HSE001'' 3 ''2023-10-12'' ''2023-10-20'' (3849170306518221 / 1099511627776) ''#f59e0b'',
      mock_batch ''5'' ''Denim Wash Experiment'' ''DWE001'' 2 ''2023-10-18'' ''2023-10-25'' (2419695239246643 / 1099511627776) ''#dc2626'']"

definition MOCK_BATCH_TYPES :: "BatchType list" where
  "MOCK_BATCH_TYPES =
     [\<lparr>type_id = ''1'', type_batchNumber = ''ACR001'', type_color = ''#16a34a''\<rparr>,
      \<lparr>type_id = ''2'', type_batchNumber = ''WFP001'', type_color = ''#06b6d4''\<rparr>,
      \<lparr>type_id = ''3'', type_batchNumber = ''SPT001'', type_color = ''#f59e0b''\<rparr>,
      \<lparr>type_id = ''4'', type_batchNumber = ''HSE001'', type_color = ''#ef4444''\<rparr>,
      \<lparr>type_id = ''5'', type_batchNumber = ''DWE001'', type_color = ''#3b82f6''\<rparr>,
      \<lparr>type_id = ''6'', type_batchNumber = ''SUMMER-LITE'', type_color = ''#eab308''\<rparr>]"


section \<open>Dates and sorting (the host's \<^verbatim>\<open>Date\<close> and \<^verbatim>\<open>Array.prototype.sort\<close>)\<close>

text \<open>
  Strings are lists of 8-bit characters: the ASCII fragment of the host's strings.

  The time value of \<^verbatim>\<open>new Date(s)\<close> and the result of the sort's comparator are integers
  in this program, or NaN.  The model covers two forms of date string: the date-only form
  \<^verbatim>\<open>YYYY-MM-DD\<close> of a calendar date (the form types.ts documents for \<^verbatim>\<open>startDate\<close> and the
  form a date input produces), read as midnight UTC, and the empty string (a date input
  left empty), which is an invalid date with time value NaN.  What \<^verbatim>\<open>Date\<close> makes of any
  other string is left to the host by the language (hosts differ on \<^verbatim>\<open>2023-02-30\<close>, for
  one); the model answers \<open>Unmodelled\<close> there instead of guessing.
\<close>

datatype number = Finite int | NaN | Unmodelled

definition isDigit :: "char \<Rightarrow> bool" where
  "isDigit c \<longleftrightarrow> 48 \<le> (of_char c :: nat) \<and> (of_char c :: nat) \<le> 57"

definition digitValue :: "char \<Rightarrow> int" where
  "digitValue c = int (of_char c) - 48"

definition parseDigits :: "string \<Rightarrow> int option" where
  "parseDigits cs =
     (if list_all isDigit cs then Some (foldl (\<lambda>a c. 10 * a + digitValue c) 0 cs) else None)"

definition isLeapYear :: "int \<Rightarrow> bool" where
  "isLeapYear y = (if y mod 400 = 0 then True else if y mod 100 = 0 then False else y mod 4 = 0)"

definition daysInMonth :: "int \<Rightarrow> int \<Rightarrow> int" where
  "daysInMonth y m =
     (if m = 2 then (if isLeapYear y then 29 else 28)
      else if m = 4 then 30 else if m = 6 then 30 else if m = 9 then 30 else if m = 11 then 30
      else 31)"

text \<open>The calendar date (year, month, day) that a string in the form \<^verbatim>\<open>YYYY-MM-DD\<close> denotes.\<close>

definition dateOf :: "string \<Rightarrow> (int \<times> int \<times> int) option" where
  "dateOf s =
     (if length s = 10 \<and> s ! 4 = CHR ''-'' \<and> s ! 7 = CHR ''-'' then
        (case (parseDigits (take 4 s), parseDigits (take 2 (drop 5 s)), parseDigits (drop 8 s)) of
           (Some y, Some m, Some d) \<Rightarrow>
             (if 1 \<le> m \<and> m \<le> 12 \<and> 1 \<le> d \<and> d \<le> daysInMonth y m then Some (y, m, d) else None)
         | _ \<Rightarrow> None)
      else None)"

text \<open>Days from 1970-01-01 to the given day of the proleptic Gregorian calendar.\<close>

definition daysFromCivil :: "int \<Rightarrow> int \<Rightarrow> int \<Rightarrow> int" where
  "daysFromCivil y m d =
     (let y' = (if m \<le> 2 then y - 1 else y);
          era = y' div 400;
          yoe = y' - era * 400;
          doy = (153 * (if m > 2 then m - 3 else m + 9) + 2) div 5 + d - 1;
          doe = yoe * 365 + yoe div 4 - yoe div 100 + doy
      in era * 146097 + doe - 719468)"

definition Date_getTime :: "string \<Rightarrow> number" where
  "Date_getTime s =
     (if s = [] then NaN
      else case dateOf s of
             Some (y, m, d) \<Rightarrow> Finite (daysFromCivil y m d * 86400000)
           | None \<Rightarrow> Unmodelled)"

text \<open>
  \<^verbatim>\<open>Array.prototype.sort(comparefn)\<close> takes a NaN from the comparator as \<open>0\<close>.  The
  language fixes the result when the comparator is consistent on the elements (it never
  returns NaN and orders them like a total preorder): the sort is stable, so the result is
  the one that insertion from the right computes.  Otherwise the order is left to the
  host.  One such case is modelled: an array in which every element compares as not
  smaller than its predecessor is one ascending run for the engines' sorts (the run scan
  of TimSort in V8; the insertion passes of the merge sorts elsewhere) and stays as it is.
  In the remaining cases, and when a comparison is outside the model, the result is
  \<open>None\<close>: the model does not say what the host returns.
\<close>

definition sortCompare :: "('a \<Rightarrow> 'a \<Rightarrow> number) \<Rightarrow> 'a \<Rightarrow> 'a \<Rightarrow> int" where
  "sortCompare comparefn x y = (case comparefn x y of Finite v \<Rightarrow> v | NaN \<Rightarrow> 0 | Unmodelled \<Rightarrow> 0)"

definition allPairs :: "('a \<Rightarrow> 'a \<Rightarrow> bool) \<Rightarrow> 'a list \<Rightarrow> bool" where
  "allPairs P xs = list_all (\<lambda>x. list_all (\<lambda>y. P x y) xs) xs"

definition isFinite :: "number \<Rightarrow> bool" where
  "isFinite v = (case v of Finite i \<Rightarrow> True | NaN \<Rightarrow> False | Unmodelled \<Rightarrow> False)"

definition isModelled :: "number \<Rightarrow> bool" where
  "isModelled v = (case v of Finite i \<Rightarrow> True | NaN \<Rightarrow> True | Unmodelled \<Rightarrow> False)"

definition consistentComparator :: "('a \<Rightarrow> 'a \<Rightarrow> number) \<Rightarrow> 'a list \<Rightarrow> bool" where
  "consistentComparator comparefn xs \<longleftrightarrow>
     allPairs (\<lambda>x y. isFinite (comparefn x y)) xs
     \<and> list_all (\<lambda>x. sortCompare comparefn x x = 0) xs
     \<and> allPairs (\<lambda>x y. (sortCompare comparefn x y < 0) = (0 < sortCompare comparefn y x)) xs
     \<and> list_all (\<lambda>x. allPairs (\<lambda>y z.
          if sortCompare comparefn x y \<le> 0 \<and> sortCompare comparefn y z \<le> 0
          then sortCompare comparefn x z \<le> 0 else True) xs) xs"

fun ascendingRun :: "('a \<Rightarrow> 'a \<Rightarrow> number) \<Rightarrow> 'a list \<Rightarrow> bool" where
  "ascendingRun comparefn (x # y # zs) =
     (0 \<le> sortCompare comparefn y x \<and> ascendingRun comparefn (y # zs))"
| "ascendingRun comparefn [x] = True"
| "ascendingRun comparefn [] = True"

fun insertSorted :: "('a \<Rightarrow> 'a \<Rightarrow> number) \<Rightarrow> 'a \<Rightarrow> 'a list \<Rightarrow> 'a list" where
  "insertSorted comparefn x [] = [x]"
| "insertSorted comparefn x (y # ys) =
     (if sortCompare comparefn x y \<le> 0 then x # y # ys
      else y # insertSorted comparefn x ys)"

definition Array_sort :: "('a \<Rightarrow> 'a \<Rightarrow> number) \<Rightarrow> 'a list \<Rightarrow> 'a list option" where
  "Array_sort comparefn xs =
     (if allPairs (\<lambda>x y. isModelled (comparefn x y)) xs then
        (if consistentComparator comparefn xs then Some (foldr (insertSorted comparefn) xs [])
         else if ascendingRun comparefn xs then Some xs
         else None)
      else None)"

text \<open>
  The comparator of \<^verbatim>\<open>calculatedBatches\<close>:
  \<^verbatim>\<open>(a, b) => new Date(b.startDate).getTime() - new Date(a.startDate).getTime()\<close>.
  A difference with a NaN operand is NaN.
\<close>

definition byStartDateDesc :: "CalculatedBatch \<Rightarrow> CalculatedBatch \<Rightarrow> number" where
  "byStartDateDesc a b =
     (case Date_getTime (startDate b) of
        Finite tb \<Rightarrow>
          (case Date_getTime (startDate a) of
             Finite ta \<Rightarrow> Finite (tb - ta) | NaN \<Rightarrow> NaN | Unmodelled \<Rightarrow> Unmodelled)
      | NaN \<Rightarrow>
          (case Date_getTime (startDate a) of
             Finite ta \<Rightarrow> NaN | NaN \<Rightarrow> NaN | Unmodelled \<Rightarrow> Unmodelled)
      | Unmodelled \<Rightarrow> Unmodelled)"

text \<open>\<^verbatim>\<open>batches.map(batch => ...).sort(...)\<close>, the projection the specification calls deriveAll.\<close>

definition calculatedBatches :: "Batch list \<Rightarrow> CalculatedBatch list option" where
  "calculatedBatches batches = Array_sort byStartDateDesc (map deriveBatch batches)"

text \<open>
  Vocabulary for the ordering claim: a start date that is a calendar date, and "not
  earlier than", read off the calendar dates themselves (year, then month, then day).
\<close>

definition validStartDate :: "string \<Rightarrow> bool" where
  "validStartDate s = (case dateOf s of None \<Rightarrow> False | Some t \<Rightarrow> True)"

definition notEarlier :: "CalculatedBatch \<Rightarrow> CalculatedBatch \<Rightarrow> bool" where
  "notEarlier a b =
     (case (dateOf (startDate a), dateOf (startDate b)) of
        (Some (ya, ma, da), Some (yb, mb, db)) \<Rightarrow>
          (if yb < ya then True else if ya < yb then False
           else if mb < ma then True else if ma < mb then False
           else db \<le> da)
      | _ \<Rightarrow> False)"


section \<open>Per-machine aggregation (MachinesPage, \<^verbatim>\<open>batchesByMachine\<close>)\<close>






section \<open>The application state container (AppProvider)\<close>

text \<open>
  The container holds the settings (absent before setup), the batches, the batch types,
  the theme and the transient notification.  Each setter of \<^verbatim>\<open>useLocalStorage\<close> updates
  the in-memory value and then mirrors it into local storage; the model is the in-memory
  state.
\<close>

record AppState =
  settings :: "Settings option"
  batches :: "Batch list"
  batchTypes :: "BatchType list"
  theme :: Theme
  notification :: "string option"

text \<open>\<^verbatim>\<open>Date.now().toString()\<close>: the decimal numeral of the clock's milliseconds.\<close>

definition digitChar :: "nat \<Rightarrow> char" where
  "digitChar d = char_of (48 + d)"

fun natToString :: "nat \<Rightarrow> string" where
  "natToString n = (if n < 10 then [digitChar n] else natToString (n div 10) @ [digitChar (n mod 10)])"

declare natToString.simps [simp del]

definition toString :: "int \<Rightarrow> string" where
  "toString i = (if i < 0 then CHR ''-'' # natToString (nat (- i)) else natToString (nat i))"

text \<open>
  \<^verbatim>\<open>addBatch\<close>: \<^verbatim>\<open>{ ...newBatch, id: Date.now().toString(), status: 'In Progress', name: '' }\<close>
  is put in front of the list.  The argument is declared without \<^verbatim>\<open>id\<close>, \<^verbatim>\<open>status\<close> and
  \<^verbatim>\<open>name\<close>; the spread copies whatever the object carries and the three fields are then
  overwritten, which is a record update.  \<open>now\<close> is the value of \<^verbatim>\<open>Date.now()\<close>.
\<close>

definition addBatch :: "int \<Rightarrow> Batch \<Rightarrow> AppState \<Rightarrow> AppState" where
  "addBatch now newBatch st =
     (let batchWithId = newBatch\<lparr>batch_id := toString now, status := InProgress, name := Some []\<rparr>
      in st\<lparr>batches := batchWithId # batches st,
            notification := Some ''New batch added successfully!''\<rparr>)"

definition updateBatch :: "Batch \<Rightarrow> AppState \<Rightarrow> AppState" where
  "updateBatch updatedBatch st =
     st\<lparr>batches := map (\<lambda>b. if batch_id b = batch_id updatedBatch then updatedBatch else b) (batches st),
        notification := Some (''Batch '' @ batchNumber updatedBatch @ '' updated!'')\<rparr>"

definition deleteBatch :: "string \<Rightarrow> AppState \<Rightarrow> AppState" where
  "deleteBatch batchId st =
     st\<lparr>batches := filter (\<lambda>b. batch_id b \<noteq> batchId) (batches st),
        notification := Some ''Batch deleted successfully!''\<rparr>"

definition addBatchType :: "int \<Rightarrow> BatchType \<Rightarrow> AppState \<Rightarrow> AppState" where
  "addBatchType now newBatchType st =
     (let typeWithId = newBatchType\<lparr>type_id := toString now\<rparr>
      in st\<lparr>batchTypes := batchTypes st @ [typeWithId],
            notification := Some ''Batch type added successfully!''\<rparr>)"

text \<open>
  The seeding effect, run after every render in which the settings or the number of
  batches changed:
  \<^verbatim>\<open>
  if (settings && batches.length === 0) {
    setBatches(MOCK_BATCHES.map(b => ({...b, status: 'In Progress' as const })));
    setBatchTypes(MOCK_BATCH_TYPES);
  }
  \<close>
\<close>

definition seeded_batches :: "Batch list" where
  "seeded_batches = map (\<lambda>b. b\<lparr>status := InProgress\<rparr>) MOCK_BATCHES"

definition seedEffect :: "AppState \<Rightarrow> AppState" where
  "seedEffect st =
     (if settings st \<noteq> None \<and> length (batches st) = 0
      then st\<lparr>batches := seeded_batches, batchTypes := MOCK_BATCH_TYPES\<rparr>
      else st)"

text \<open>A user action as the interface runs it: the state update, then the effect of the re-render.\<close>

definition afterRender :: "(AppState \<Rightarrow> AppState) \<Rightarrow> AppState \<Rightarrow> AppState" where
  "afterRender action st = seedEffect (action st)"


section \<open>Forms (UserDetailsPage, SettingsPage, SetupWizard)\<close>

text \<open>
  \<^verbatim>\<open>trim\<close> strips white space at both ends and \<^verbatim>\<open>toUpperCase\<close> maps letters to capitals;
  on the ASCII fragment these are the six white-space characters and the letters a to z.
\<close>

definition isWhiteSpace :: "char \<Rightarrow> bool" where
  "isWhiteSpace c \<longleftrightarrow> (of_char c :: nat) = 32 \<or> (9 \<le> (of_char c :: nat) \<and> (of_char c :: nat) \<le> 13)"

definition trim :: "string \<Rightarrow> string" where
  "trim s = rev (dropWhile isWhiteSpace (rev (dropWhile isWhiteSpace s)))"

definition upperChar :: "char \<Rightarrow> char" where
  "upperChar c =
     (if 97 \<le> (of_char c :: nat) \<and> (of_char c :: nat) \<le> 122 then char_of ((of_char c :: nat) - 32) else c)"

definition toUpperCase :: "string \<Rightarrow> string" where
  "toUpperCase s = map upperChar s"

text \<open>
  \<^verbatim>\<open>existingBatchNumbers\<close> of UserDetailsPage and its submit handler
  \<^verbatim>\<open>handleAddBatchType\<close>, applied to the two form fields.  An empty string is falsy;
  \<open>now\<close> is the clock value that \<^verbatim>\<open>addBatchType\<close> reads.  The handler also clears the
  two form fields after a successful submission; they are local to the page and not part
  of the container's state.
\<close>

definition existingBatchNumbers :: "AppState \<Rightarrow> string list" where
  "existingBatchNumbers st = map (\<lambda>bt. toUpperCase (type_batchNumber bt)) (batchTypes st)"

definition handleAddBatchType :: "int \<Rightarrow> string \<Rightarrow> string \<Rightarrow> AppState \<Rightarrow> AppState" where
  "handleAddBatchType now newBatchNumber newBatchColor st =
     (if trim newBatchNumber = [] then st\<lparr>notification := Some ''Batch number cannot be empty.''\<rparr>
      else if List.member (existingBatchNumbers st) (toUpperCase (trim newBatchNumber))
      then st\<lparr>notification := Some ''Batch number must be unique.''\<rparr>
      else addBatchType now
             \<lparr>type_id = [], type_batchNumber = toUpperCase (trim newBatchNumber),
              type_color = newBatchColor\<rparr> st)"

text \<open>
  \<^verbatim>\<open>handleSettingsSubmit\<close> of the settings form and \<^verbatim>\<open>handleComplete\<close> of the setup
  wizard, applied to the form data.  A non-empty string is truthy.
\<close>

definition handleSettingsSubmit :: "Settings \<Rightarrow> AppState \<Rightarrow> AppState" where
  "handleSettingsSubmit formData st =
     st\<lparr>settings := Some formData,
        notification := Some ''Company settings updated successfully!''\<rparr>"

definition handleComplete :: "Settings \<Rightarrow> AppState \<Rightarrow> AppState" where
  "handleComplete formData st =
     (if companyName formData \<noteq> [] \<and> numberOfMachines formData > 0
      then st\<lparr>settings := Some formData\<rparr> else st)"


section \<open>Vocabulary and example states for the properties\<close>

text \<open>The timestamp of a calculated batch (\<open>0\<close> where the start date is no calendar date).\<close>

definition startTime :: "CalculatedBatch \<Rightarrow> int" where
  "startTime c =
     (case Date_getTime (startDate c) of Finite t \<Rightarrow> t | NaN \<Rightarrow> 0 | Unmodelled \<Rightarrow> 0)"

text \<open>
  For the proof that the day number follows the calendar: the days before the March-based
  year \<open>a + 1\<close>, and the first day and the length of the month with running number \<open>k\<close>
  (twelve per year).
\<close>

definition yearStart :: "int \<Rightarrow> int" where
  "yearStart a = a div 400 * 146097 + (a - a div 400 * 400) * 365
     + (a - a div 400 * 400) div 4 - (a - a div 400 * 400) div 100"

definition firstDay :: "int \<Rightarrow> int" where
  "firstDay k = daysFromCivil (k div 12) (k mod 12 + 1) 1"

definition lengthOf :: "int \<Rightarrow> int" where
  "lengthOf k = daysInMonth (k div 12) (k mod 12 + 1)"

text \<open>Equality of batch numbers up to the case of letters.\<close>

definition equalIgnoringCase :: "string \<Rightarrow> string \<Rightarrow> bool" where
  "equalIgnoringCase a b \<longleftrightarrow> toUpperCase a = toUpperCase b"

text \<open>
  The state of a first start (nothing in local storage: the initial values of the four
  hooks), the form data the setup wizard starts with, and the state the application is in
  once the wizard has been completed with them and the page has rendered.
\<close>

definition fresh_state :: AppState where
  "fresh_state = \<lparr>settings = None, batches = [], batchTypes = [], theme = light, notification = None\<rparr>"

definition wizard_defaults :: Settings where
  "wizard_defaults = \<lparr>companyName = ''Geetha Tex'', numberOfMachines = 3\<rparr>"

definition demo_state :: AppState where
  "demo_state = afterRender (handleComplete wizard_defaults) fresh_state"

text \<open>The user deletes the demonstration batches one after the other.\<close>

definition four_deleted :: AppState where
  "four_deleted =
     afterRender (deleteBatch ''4'') (afterRender (deleteBatch ''3'')
       (afterRender (deleteBatch ''2'') (afterRender (deleteBatch ''1'') demo_state)))"


text \<open>A batch list with two batches that start on the same day (ids 3 and 6, in this order).\<close>

definition batches_with_tie :: "Batch list" where
  "batches_with_tie =
     MOCK_BATCHES @
     [mock_batch ''6'' ''Linen Trial'' ''SUMMER-LITE'' 3 ''2023-10-10'' ''2023-10-11'' 400 ''#eab308'']"

text \<open>A batch type of the user's own.\<close>

definition user_type :: BatchType where
  "user_type = \<lparr>type_id = ''1700000000000'', type_batchNumber = ''MY-TYPE'', type_color = ''#14b8a6''\<rparr>"


definition blank_date_batches :: "Batch list" where
  "blank_date_batches =
     [mock_batch ''1'' ''Autumn Collection Run 1'' ''ACR001'' 1 ''2023-10-01'' ''2023-10-05'' (12505 / 10) ''#16a34a'',
      mock_batch ''8'' ''Undated Run'' ''WFP001'' 2 [] ''2023-10-08'' 400 ''#06b6d4'',
      mock_batch ''5'' ''Denim Wash Experiment'' ''DWE001'' 2 ''2023-10-18'' ''2023-10-25'' (2419695239246643 / 1099511627776) ''#dc2626'']"


section \<open>Properties of the binary64 rounding\<close>














section \<open>Properties of the derived metrics\<close>



lemma ftotal_deriveBatch: "ftotal (deriveBatch b) = Math_round (divide64 (meterValue b) 4)"
  by (simp add: deriveBatch_def Let_def Batch.defs CalculatedBatch.defs)

lemma average_deriveBatch:
  "average (deriveBatch b) =
     (if ftotal (deriveBatch b) > 0
      then binary64 (toFixed2 (divide64 (meterValue b) (ftotal (deriveBatch b)))) else 0)"
  by (simp add: deriveBatch_def Let_def Batch.defs CalculatedBatch.defs)











text \<open>The decimal literals of the demonstration data, as binary64 values.\<close>

lemma mock_literals:
  "binary64 (21002 / 10) = 2309194320655155 / 1099511627776"
  "binary64 (35008 / 10) = 3849170306518221 / 1099511627776"
  "binary64 (22007 / 10) = 2419695239246643 / 1099511627776"
  "binary64 (2403 / 100) = 845480461294633 / 35184372088832"
  by code_simp+








text \<open>
  C2, as stated: for meter value \<open>1250.5\<close> the derivation yields \<open>ftotal = 313\<close> and
  \<open>average = 3.997\<close>.  This fails on the first demonstration batch, whose meter value is
  \<open>1250.5\<close>: \<open>1250.5 / 313 = 3.9952\<dots>\<close>, and two decimals give \<open>4.00\<close>.
\<close>

theorem average_1250_5_counterexample:
  "\<not> (ftotal (deriveBatch (hd MOCK_BATCHES)) = 313
      \<and> average (deriveBatch (hd MOCK_BATCHES)) = 3997 / 1000)"
proof -
  have "average (deriveBatch (hd MOCK_BATCHES)) = 4"
    by code_simp
  then show ?thesis
    by simp
qed

text \<open>
  C2, amended: for every batch with meter value \<open>1250.5\<close> the derivation yields
  \<open>ftotal = 313\<close> and \<open>average = 4\<close> (\<open>1250.5 / 313\<close> rounded at two decimals).
\<close>

theorem deriveBatch_1250_5:
  assumes "meterValue b = 2501 / 2"
  shows "ftotal (deriveBatch b) = 313 \<and> average (deriveBatch b) = 4"
proof -
  have r: "Math_round (divide64 (2501 / 2) 4) = 313"
    by code_simp
  have ft: "ftotal (deriveBatch b) = 313"
    unfolding ftotal_deriveBatch assms by (rule r)
  have t: "binary64 (toFixed2 (divide64 (2501 / 2) 313)) = 4"
    by code_simp
  have "average (deriveBatch b) = binary64 (toFixed2 (divide64 (2501 / 2) 313))"
    unfolding average_deriveBatch [of b] ft assms by simp
  with t ft show ?thesis
    by simp
qed

text \<open>Witness for C2, amended: the first demonstration batch.\<close>

theorem deriveBatch_1250_5_witness:
  "meterValue (hd MOCK_BATCHES) = 2501 / 2
   \<and> ftotal (deriveBatch (hd MOCK_BATCHES)) = 313 \<and> average (deriveBatch (hd MOCK_BATCHES)) = 4"
proof -
  have m: "meterValue (hd MOCK_BATCHES) = 2501 / 2"
    by (simp add: MOCK_BATCHES_def mock_batch_def)
  from deriveBatch_1250_5 [OF m] m show ?thesis
    by simp
qed


section \<open>The day number follows the calendar\<close>

lemma div_step:
  assumes "0 < (n::int)"
  shows "(a + 1) div n = (if (a + 1) mod n = 0 then a div n + 1 else a div n)"
proof -
  define q where "q = (a + 1) div n"
  define r where "r = (a + 1) mod n"
  have r: "0 \<le> r" "r < n"
    using assms by (simp_all add: r_def)
  have eq: "a + 1 = n * q + r"
    by (simp add: q_def r_def)
  show ?thesis
  proof (cases "r = 0")
    case True
    with eq have "a = n * (q - 1) + (n - 1)"
      by (simp add: algebra_simps)
    with assms have "a div n = q - 1"
      by (intro int_div_pos_eq [of a n "q - 1" "n - 1"]) simp_all
    with True show ?thesis
      by (simp add: q_def r_def)
  next
    case False
    from eq have "a = n * q + (r - 1)"
      by linarith
    with r False have "a div n = q"
      by (intro int_div_pos_eq [of a n q "r - 1"]) simp_all
    with False show ?thesis
      by (simp add: q_def r_def)
  qed
qed

lemma yearStart_closed: "yearStart a = 365 * a + a div 4 - a div 100 + a div 400"
proof -
  define q where "q = a div 400"
  define r where "r = a - q * 400"
  have "a div 4 = (r + 4 * (100 * q)) div 4" and "a div 100 = (r + 100 * (4 * q)) div 100"
    by (simp_all add: r_def)
  then have e: "a div 4 = 100 * q + r div 4" "a div 100 = 4 * q + r div 100"
    by simp_all
  have "yearStart a = q * 146097 + r * 365 + r div 4 - r div 100"
    by (simp only: yearStart_def q_def r_def)
  also have "\<dots> = 365 * a + a div 4 - a div 100 + q"
    using e by (simp add: r_def algebra_simps)
  finally show ?thesis
    by (simp only: q_def)
qed

lemma mod_100_4: "(y::int) mod 100 = 0 \<Longrightarrow> y mod 4 = 0"
  using mod_mod_cancel [of 4 100 y] by simp

lemma mod_400_100: "(y::int) mod 400 = 0 \<Longrightarrow> y mod 100 = 0"
  using mod_mod_cancel [of 100 400 y] by simp

lemma year_step_algebra:
  fixes y a :: int
  assumes "Y4 = A4 + s4" and "Y100 = A100 + s100" and "Y400 = A400 + s400" and "y = a + 1"
  shows "365 * y + Y4 - Y100 + Y400 = (365 * a + A4 - A100 + A400) + (365 + s4 - s100 + s400)"
  using assms by simp

lemma yearStart_step:
  "yearStart (a + 1) = yearStart a + (if isLeapYear (a + 1) then 366 else 365)"
proof -
  define y where "y = a + 1"
  define s4 :: int where "s4 = (if y mod 4 = 0 then 1 else 0)"
  define s100 :: int where "s100 = (if y mod 100 = 0 then 1 else 0)"
  define s400 :: int where "s400 = (if y mod 400 = 0 then 1 else 0)"
  have d4: "y div 4 = a div 4 + s4"
    unfolding y_def s4_def by (subst div_step) simp_all
  have d100: "y div 100 = a div 100 + s100"
    unfolding y_def s100_def by (subst div_step) simp_all
  have d400: "y div 400 = a div 400 + s400"
    unfolding y_def s400_def by (subst div_step) simp_all
  have step: "yearStart y = yearStart a + (365 + s4 - s100 + s400)"
    unfolding yearStart_closed by (rule year_step_algebra [OF d4 d100 d400 y_def])
  consider (c400) "y mod 400 = 0" | (c100) "y mod 400 \<noteq> 0" "y mod 100 = 0"
    | (c4) "y mod 100 \<noteq> 0" "y mod 4 = 0" | (c1) "y mod 4 \<noteq> 0"
    by blast
  then have "365 + s4 - s100 + s400 = (if isLeapYear y then 366 else 365)"
  proof cases
    case c400
    then have h: "y mod 100 = 0" by (rule mod_400_100)
    then have "y mod 4 = 0" by (rule mod_100_4)
    with c400 h have "s4 = 1" "s100 = 1" "s400 = 1" "isLeapYear y"
      by (simp_all only: s4_def s100_def s400_def isLeapYear_def if_True if_False simp_thms)
    then show ?thesis by simp
  next
    case c100
    then have "y mod 4 = 0" by (intro mod_100_4)
    with c100 have "s4 = 1" "s100 = 1" "s400 = 0" "\<not> isLeapYear y"
      by (simp_all only: s4_def s100_def s400_def isLeapYear_def if_True if_False simp_thms)
    then show ?thesis by simp
  next
    case c4
    have "y mod 400 \<noteq> 0"
    proof
      assume "y mod 400 = 0"
      then have "y mod 100 = 0" by (rule mod_400_100)
      with c4(1) show False by (rule notE)
    qed
    with c4 have "s4 = 1" "s100 = 0" "s400 = 0" "isLeapYear y"
      by (simp_all only: s4_def s100_def s400_def isLeapYear_def if_True if_False simp_thms)
    then show ?thesis by simp
  next
    case c1
    have h: "y mod 100 \<noteq> 0"
    proof
      assume "y mod 100 = 0"
      then have "y mod 4 = 0" by (rule mod_100_4)
      with c1 show False by (rule notE)
    qed
    have "y mod 400 \<noteq> 0"
    proof
      assume "y mod 400 = 0"
      then have "y mod 100 = 0" by (rule mod_400_100)
      with h show False by (rule notE)
    qed
    with c1 h have "s4 = 0" "s100 = 0" "s400 = 0" "\<not> isLeapYear y"
      by (simp_all only: s4_def s100_def s400_def isLeapYear_def if_True if_False simp_thms)
    then show ?thesis by simp
  qed
  with step show ?thesis
    by (simp only: y_def)
qed

lemma days_algebra:
  fixes A B C D M d :: int
  shows "A + (B + C - D + (M + d - 1)) - 719468 = A + B + C - D + M + d - 719469"
  by simp

lemma daysFromCivil_alt:
  "daysFromCivil y m d =
     yearStart (if m \<le> 2 then y - 1 else y)
       + (153 * (if m > 2 then m - 3 else m + 9) + 2) div 5 + d - 719469"
  unfolding daysFromCivil_def yearStart_def Let_def by (rule days_algebra)

lemma daysFromCivil_day: "daysFromCivil y m d = daysFromCivil y m 1 + (d - 1)"
  unfolding daysFromCivil_alt by simp

lemma next_in_year:
  assumes "1 \<le> m" and "m \<le> 11"
  shows "daysFromCivil y (m + 1) 1 = daysFromCivil y m 1 + daysInMonth y m"
proof (cases "m = 2")
  case True
  have "yearStart y = yearStart (y - 1) + (if isLeapYear y then 366 else 365)"
    using yearStart_step [of "y - 1"] by simp
  with True show ?thesis
    by (simp add: daysFromCivil_alt daysInMonth_def)
next
  case False
  from assms have "m = 1 \<or> m = 2 \<or> m = 3 \<or> m = 4 \<or> m = 5 \<or> m = 6
      \<or> m = 7 \<or> m = 8 \<or> m = 9 \<or> m = 10 \<or> m = 11"
    by presburger
  with False show ?thesis
    by (auto simp add: daysFromCivil_alt daysInMonth_def)
qed

lemma next_year: "daysFromCivil (y + 1) 1 1 = daysFromCivil y 12 1 + daysInMonth y 12"
  by (simp add: daysFromCivil_alt daysInMonth_def)

lemma firstDay_step: "firstDay (k + 1) = firstDay k + lengthOf k"
proof (cases "(k + 1) mod 12 = 0")
  case True
  then have d: "(k + 1) div 12 = k div 12 + 1"
    using div_step [of 12 k] by simp
  have "k = 12 * ((k + 1) div 12) + (k + 1) mod 12 - 1"
    using mult_div_mod_eq [of 12 "k + 1"] by linarith
  with True d have "k = 12 * (k div 12) + 11"
    by simp
  then have "k mod 12 = 11"
    using mult_div_mod_eq [of 12 k] by linarith
  with True d show ?thesis
    by (simp add: firstDay_def lengthOf_def next_year)
next
  case False
  then have d: "(k + 1) div 12 = k div 12"
    using div_step [of 12 k] by simp
  have "k + 1 = 12 * ((k + 1) div 12) + (k + 1) mod 12"
    by simp
  with d have "k = 12 * (k div 12) + ((k + 1) mod 12 - 1)"
    by linarith
  then have m: "(k + 1) mod 12 = k mod 12 + 1"
    using mult_div_mod_eq [of 12 k] by linarith
  have "0 \<le> k mod 12" and "(k + 1) mod 12 < 12"
    by simp_all
  with m have r: "1 \<le> k mod 12 + 1" "k mod 12 + 1 \<le> 11"
    by linarith+
  show ?thesis
    unfolding firstDay_def lengthOf_def d m by (rule next_in_year [OF r])
qed

lemma daysInMonth_pos: "1 \<le> daysInMonth y m"
  by (simp add: daysInMonth_def)

lemma firstDay_chain: "firstDay k + lengthOf k \<le> firstDay (k + 1 + int n)"
proof (induction n)
  case 0
  show ?case by (simp add: firstDay_step)
next
  case (Suc n)
  have "firstDay (k + 1 + int (Suc n)) = firstDay (k + 1 + int n + 1)"
    by (simp add: add.assoc)
  also have "\<dots> = firstDay (k + 1 + int n) + lengthOf (k + 1 + int n)"
    by (rule firstDay_step)
  finally show ?case
    using Suc.IH daysInMonth_pos [of "(k + 1 + int n) div 12" "(k + 1 + int n) mod 12 + 1"]
    by (simp add: lengthOf_def)
qed

lemma firstDay_mono:
  assumes "k1 < k2"
  shows "firstDay k1 + lengthOf k1 \<le> firstDay k2"
proof -
  from assms have "k2 = k1 + 1 + int (nat (k2 - k1 - 1))"
    by simp
  then show ?thesis
    using firstDay_chain [of k1 "nat (k2 - k1 - 1)"] by simp
qed

lemma month_index:
  fixes y m :: int
  assumes "1 \<le> m" and "m \<le> 12"
  shows "(12 * y + (m - 1)) div 12 = y" and "(12 * y + (m - 1)) mod 12 + 1 = m"
proof -
  have "(12 * y + (m - 1)) div 12 = y"
    using assms by (intro int_div_pos_eq [of _ 12 y "m - 1"]) simp_all
  moreover have "12 * y + (m - 1) = 12 * ((12 * y + (m - 1)) div 12) + (12 * y + (m - 1)) mod 12"
    by simp
  ultimately show "(12 * y + (m - 1)) div 12 = y" and "(12 * y + (m - 1)) mod 12 + 1 = m"
    by simp_all
qed

lemma days_via_index:
  assumes "1 \<le> m" and "m \<le> 12"
  shows "daysFromCivil y m d = firstDay (12 * y + (m - 1)) + (d - 1)"
    and "lengthOf (12 * y + (m - 1)) = daysInMonth y m"
  unfolding firstDay_def lengthOf_def month_index [OF assms]
  by (rule daysFromCivil_day, rule refl)

text \<open>Later in the calendar means a larger day number.\<close>

lemma daysFromCivil_strict_mono:
  assumes "1 \<le> m1" "m1 \<le> 12" "1 \<le> d1" "d1 \<le> daysInMonth y1 m1"
    and "1 \<le> m2" "m2 \<le> 12" "1 \<le> d2" "d2 \<le> daysInMonth y2 m2"
    and "y1 < y2 \<or> (y1 = y2 \<and> (m1 < m2 \<or> (m1 = m2 \<and> d1 < d2)))"
  shows "daysFromCivil y1 m1 d1 < daysFromCivil y2 m2 d2"
proof (cases "y1 = y2 \<and> m1 = m2")
  case True
  with assms(9) have "d1 < d2" by auto
  with True show ?thesis
    by (simp add: daysFromCivil_day [of y2 m2 d1] daysFromCivil_day [of y2 m2 d2])
next
  case False
  with assms have "12 * y1 + (m1 - 1) < 12 * y2 + (m2 - 1)"
    by linarith
  then have "firstDay (12 * y1 + (m1 - 1)) + lengthOf (12 * y1 + (m1 - 1)) \<le> firstDay (12 * y2 + (m2 - 1))"
    by (rule firstDay_mono)
  with assms show ?thesis
    by (simp add: days_via_index)
qed

section \<open>Properties of the sorted projection\<close>

text \<open>
  On batches whose start dates are calendar dates the comparator is the difference of two
  timestamps; it is consistent, and the sort is the library's stable insertion sort on the
  negated timestamp.
\<close>

lemma startDate_deriveBatch: "startDate (deriveBatch b) = startDate b"
  by (simp add: deriveBatch_def Let_def Batch.defs CalculatedBatch.defs)

lemma valid_dateOf: "validStartDate s \<Longrightarrow> \<exists>y m d. dateOf s = Some (y, m, d)"
  by (cases "dateOf s") (auto simp: validStartDate_def)

lemma dateOf_nonempty: "dateOf s = Some t \<Longrightarrow> s \<noteq> []"
  by (auto simp: dateOf_def)

lemma dateOf_range:
  assumes "dateOf s = Some (y, m, d)"
  shows "1 \<le> m \<and> m \<le> 12 \<and> 1 \<le> d \<and> d \<le> daysInMonth y m"
  using assms by (auto simp: dateOf_def split: if_splits option.splits)

lemma valid_getTime:
  assumes "dateOf s = Some (y, m, d)"
  shows "Date_getTime s = Finite (daysFromCivil y m d * 86400000)"
  using assms dateOf_nonempty [OF assms] by (simp add: Date_getTime_def)

lemma valid_startTime:
  assumes "dateOf (startDate c) = Some (y, m, d)"
  shows "startTime c = daysFromCivil y m d * 86400000"
  by (simp add: startTime_def valid_getTime [OF assms])

lemma compare_valid:
  assumes "validStartDate (startDate x)" and "validStartDate (startDate y)"
  shows "byStartDateDesc x y = Finite (startTime y - startTime x)"
proof -
  from assms obtain yx mx dx yy my dy
    where x: "dateOf (startDate x) = Some (yx, mx, dx)"
      and y: "dateOf (startDate y) = Some (yy, my, dy)"
    by (auto dest!: valid_dateOf)
  show ?thesis
    by (simp add: byStartDateDesc_def valid_getTime [OF x] valid_getTime [OF y]
        valid_startTime [OF x] valid_startTime [OF y])
qed

lemma sortCompare_valid:
  assumes "validStartDate (startDate x)" and "validStartDate (startDate y)"
  shows "sortCompare byStartDateDesc x y = startTime y - startTime x"
  by (simp add: sortCompare_def compare_valid [OF assms])

lemma modelled_valid:
  assumes "list_all (\<lambda>c. validStartDate (startDate c)) xs"
  shows "allPairs (\<lambda>x y. isModelled (byStartDateDesc x y)) xs"
  using assms by (simp add: allPairs_def list_all_iff compare_valid isModelled_def)

lemma consistent_valid:
  assumes "list_all (\<lambda>c. validStartDate (startDate c)) xs"
  shows "consistentComparator byStartDateDesc xs"
proof -
  have v: "\<And>x y. x \<in> set xs \<Longrightarrow> y \<in> set xs
      \<Longrightarrow> sortCompare byStartDateDesc x y = startTime y - startTime x"
    using assms by (simp add: list_all_iff sortCompare_valid)
  have f: "allPairs (\<lambda>x y. isFinite (byStartDateDesc x y)) xs"
    using assms by (simp add: allPairs_def list_all_iff compare_valid isFinite_def)
  have r: "list_all (\<lambda>x. sortCompare byStartDateDesc x x = 0) xs"
    by (simp add: list_all_iff v)
  have s: "allPairs (\<lambda>x y. (sortCompare byStartDateDesc x y < 0) = (0 < sortCompare byStartDateDesc y x)) xs"
    by (auto simp: allPairs_def list_all_iff v)
  have t: "list_all (\<lambda>x. allPairs (\<lambda>y z.
          if sortCompare byStartDateDesc x y \<le> 0 \<and> sortCompare byStartDateDesc y z \<le> 0
          then sortCompare byStartDateDesc x z \<le> 0 else True) xs) xs"
    by (auto simp: allPairs_def list_all_iff v)
  from f r s t show ?thesis
    by (simp only: consistentComparator_def simp_thms)
qed

lemma insertSorted_insort_key:
  assumes "validStartDate (startDate x)" and "list_all (\<lambda>c. validStartDate (startDate c)) ys"
  shows "insertSorted byStartDateDesc x ys = insort_key (\<lambda>c. - startTime c) x ys"
  using assms
proof (induction ys)
  case Nil
  show ?case by simp
next
  case (Cons y ys)
  then have "sortCompare byStartDateDesc x y = startTime y - startTime x"
    by (simp add: sortCompare_valid)
  with Cons show ?case
    by simp
qed

lemma insertion_sort_key:
  assumes "list_all (\<lambda>c. validStartDate (startDate c)) xs"
  shows "foldr (insertSorted byStartDateDesc) xs [] = sort_key (\<lambda>c. - startTime c) xs"
  using assms
proof (induction xs)
  case Nil
  show ?case by simp
next
  case (Cons x xs)
  then have ih: "foldr (insertSorted byStartDateDesc) xs [] = sort_key (\<lambda>c. - startTime c) xs"
    by simp
  have "list_all (\<lambda>c. validStartDate (startDate c)) (sort_key (\<lambda>c. - startTime c) xs)"
    using Cons.prems by (simp add: list_all_iff)
  with Cons.prems have
    "insertSorted byStartDateDesc x (sort_key (\<lambda>c. - startTime c) xs)
       = insort_key (\<lambda>c. - startTime c) x (sort_key (\<lambda>c. - startTime c) xs)"
    by (simp add: insertSorted_insort_key)
  with ih show ?case
    by simp
qed

lemma Array_sort_sort_key:
  assumes "list_all (\<lambda>c. validStartDate (startDate c)) xs"
  shows "Array_sort byStartDateDesc xs = Some (sort_key (\<lambda>c. - startTime c) xs)"
  by (simp add: Array_sort_def modelled_valid [OF assms] consistent_valid [OF assms]
      insertion_sort_key [OF assms])

lemma valid_derived:
  "list_all (\<lambda>b. validStartDate (startDate b)) bs
   \<Longrightarrow> list_all (\<lambda>c. validStartDate (startDate c)) (map deriveBatch bs)"
  by (simp add: list_all_iff startDate_deriveBatch)

lemma calculatedBatches_sort_key:
  "list_all (\<lambda>b. validStartDate (startDate b)) bs
   \<Longrightarrow> calculatedBatches bs = Some (sort_key (\<lambda>c. - startTime c) (map deriveBatch bs))"
  by (simp add: calculatedBatches_def Array_sort_sort_key valid_derived)

text \<open>A batch whose timestamp is not smaller starts on a calendar date that is not earlier.\<close>

lemma notEarlier_startTime:
  assumes "validStartDate (startDate a)" and "validStartDate (startDate b)"
    and "startTime b \<le> startTime a"
  shows "notEarlier a b"
proof -
  from assms(1,2) obtain ya ma da yb mb db
    where a: "dateOf (startDate a) = Some (ya, ma, da)"
      and b: "dateOf (startDate b) = Some (yb, mb, db)"
    by (auto dest!: valid_dateOf)
  note ra = dateOf_range [OF a] and rb = dateOf_range [OF b]
  have le: "daysFromCivil yb mb db \<le> daysFromCivil ya ma da"
    using assms(3) by (simp add: valid_startTime [OF a] valid_startTime [OF b])
  have "\<not> (ya < yb \<or> (ya = yb \<and> (ma < mb \<or> (ma = mb \<and> da < db))))"
  proof
    assume "ya < yb \<or> (ya = yb \<and> (ma < mb \<or> (ma = mb \<and> da < db)))"
    with ra rb have "daysFromCivil ya ma da < daysFromCivil yb mb db"
      by (intro daysFromCivil_strict_mono) simp_all
    with le show False by simp
  qed
  then show ?thesis
    by (auto simp: notEarlier_def a b)
qed

lemma sorted_desc:
  assumes "list_all (\<lambda>c. validStartDate (startDate c)) xs"
    and "sorted (map (\<lambda>c. - startTime c) xs)"
  shows "sorted_wrt notEarlier xs"
  using assms
proof (induction xs)
  case Nil
  show ?case by simp
next
  case (Cons x xs)
  then show ?case
    by (auto simp: list_all_iff intro: notEarlier_startTime)
qed

lemma stable_by_startDate:
  assumes "\<And>k. filter (\<lambda>c. startTime c = k) xs = filter (\<lambda>c. startTime c = k) ys"
  shows "filter (\<lambda>c. startDate c = d) xs = filter (\<lambda>c. startDate c = d) ys"
proof -
  define k where "k = (case Date_getTime d of Finite t \<Rightarrow> t | NaN \<Rightarrow> 0 | Unmodelled \<Rightarrow> 0)"
  have split: "filter (\<lambda>c. startDate c = d) zs
      = filter (\<lambda>c. startDate c = d) (filter (\<lambda>c. startTime c = k) zs)" for zs
  proof -
    have "(\<lambda>c. startDate c = d) = (\<lambda>c. startTime c = k \<and> startDate c = d)"
      by (auto simp: startTime_def k_def)
    then have "filter (\<lambda>c. startDate c = d) zs
        = filter (\<lambda>c. startTime c = k \<and> startDate c = d) zs"
      by (rule arg_cong)
    also have "\<dots> = filter (\<lambda>c. startDate c = d) (filter (\<lambda>c. startTime c = k) zs)"
      by (rule filter_filter [symmetric])
    finally show ?thesis .
  qed
  have "filter (\<lambda>c. startDate c = d) xs
      = filter (\<lambda>c. startDate c = d) (filter (\<lambda>c. startTime c = k) xs)"
    by (rule split)
  also have "\<dots> = filter (\<lambda>c. startDate c = d) (filter (\<lambda>c. startTime c = k) ys)"
    by (simp only: assms)
  also have "\<dots> = filter (\<lambda>c. startDate c = d) ys"
    by (rule split [symmetric])
  finally show ?thesis .
qed

text \<open>
  Derivation commutes with the sort: it changes neither the start date nor the identifier
  nor the machine of a batch.
\<close>

lemma batch_id_deriveBatch: "batch_id (deriveBatch b) = batch_id b"
  by (simp add: deriveBatch_def Let_def Batch.defs CalculatedBatch.defs)


lemma startTime_deriveBatch:
  "startTime (deriveBatch b)
    = (case Date_getTime (startDate b) of Finite t \<Rightarrow> t | NaN \<Rightarrow> 0 | Unmodelled \<Rightarrow> 0)"
  by (simp add: startTime_def startDate_deriveBatch)

lemma insort_key_map:
  "insort_key f (g x) (map g xs) = map g (insort_key (\<lambda>y. f (g y)) x xs)"
  by (induction xs) simp_all

lemma sort_key_map: "sort_key f (map g xs) = map g (sort_key (\<lambda>y. f (g y)) xs)"
  by (induction xs) (simp_all add: insort_key_map)

lemma calculatedBatches_by_date:
  assumes "list_all (\<lambda>b. validStartDate (startDate b)) bs"
  shows "calculatedBatches bs
    = Some (map deriveBatch (sort_key (\<lambda>b. - startTime (deriveBatch b)) bs))"
  by (simp only: calculatedBatches_sort_key [OF assms] sort_key_map)

text \<open>
  An undated batch between two dated ones: every comparison next to it is NaN, so the
  comparator is not consistent, and the array is one ascending run.
\<close>

lemma undated_between:
  assumes "Date_getTime (startDate a) = Finite ta" and "startDate x = []"
    and "Date_getTime (startDate b) = Finite tb"
  shows "calculatedBatches [a, x, b] = Some (map deriveBatch [a, x, b])"
proof -
  have x: "Date_getTime (startDate x) = NaN"
    by (simp add: assms(2) Date_getTime_def)
  show ?thesis
    by (simp add: calculatedBatches_def Array_sort_def allPairs_def consistentComparator_def
        isModelled_def isFinite_def sortCompare_def byStartDateDesc_def startDate_deriveBatch
        assms(1,3) x)
qed

lemma october_dates:
  "dateOf ''2023-10-01'' = Some (2023, 10, 1)"
  "dateOf ''2023-10-18'' = Some (2023, 10, 18)"
  by code_simp+

text \<open>
  C4, as stated: for every input list of batches the projection returns the batches in
  descending order of start date.  This fails when a start date is missing, which the
  forms allow: for a batch of 1 October, an undated batch and a batch of 18 October the
  comparator returns NaN next to the undated batch, the list is returned as it is, and
  the batch of 1 October stays in front of the batch of 18 October.
\<close>

theorem blank_startDate_counterexample:
  "calculatedBatches blank_date_batches = Some (map deriveBatch blank_date_batches)
   \<and> map startDate (map deriveBatch blank_date_batches) = [''2023-10-01'', [], ''2023-10-18'']
   \<and> \<not> notEarlier (deriveBatch (blank_date_batches ! 0)) (deriveBatch (blank_date_batches ! 2))
   \<and> \<not> sorted_wrt notEarlier (map deriveBatch blank_date_batches)"
proof -
  have a: "Date_getTime (startDate (blank_date_batches ! 0)) = Finite (daysFromCivil 2023 10 1 * 86400000)"
    by (simp add: blank_date_batches_def mock_batch_def Date_getTime_def october_dates)
  have x: "startDate (blank_date_batches ! 1) = []"
    by (simp add: blank_date_batches_def mock_batch_def)
  have b: "Date_getTime (startDate (blank_date_batches ! 2)) = Finite (daysFromCivil 2023 10 18 * 86400000)"
    by (simp add: blank_date_batches_def mock_batch_def Date_getTime_def october_dates)
  have l: "blank_date_batches
      = [blank_date_batches ! 0, blank_date_batches ! 1, blank_date_batches ! 2]"
    by (simp add: blank_date_batches_def)
  have "calculatedBatches [blank_date_batches ! 0, blank_date_batches ! 1, blank_date_batches ! 2]
      = Some (map deriveBatch [blank_date_batches ! 0, blank_date_batches ! 1, blank_date_batches ! 2])"
    using a x b by (rule undated_between)
  then have c: "calculatedBatches blank_date_batches = Some (map deriveBatch blank_date_batches)"
    by (simp only: l [symmetric])
  have d: "map startDate (map deriveBatch blank_date_batches) = [''2023-10-01'', [], ''2023-10-18'']"
    by (simp add: startDate_deriveBatch blank_date_batches_def mock_batch_def)
  have n: "\<not> notEarlier (deriveBatch (blank_date_batches ! 0)) (deriveBatch (blank_date_batches ! 2))"
    by (simp add: notEarlier_def startDate_deriveBatch blank_date_batches_def mock_batch_def
        october_dates)
  have "\<not> sorted_wrt notEarlier
      (map deriveBatch [blank_date_batches ! 0, blank_date_batches ! 1, blank_date_batches ! 2])"
    using n by simp
  then have s: "\<not> sorted_wrt notEarlier (map deriveBatch blank_date_batches)"
    by (simp only: l [symmetric] simp_thms)
  show ?thesis
    by (intro conjI c d n s)
qed

text \<open>
  C4, amended: for every list of batches whose start dates are calendar dates in the form
  \<open>YYYY-MM-DD\<close>, \<open>calculatedBatches\<close> returns the derived batches, each exactly once, in
  descending order of start date, and batches with equal start date keep their relative
  input order.
\<close>

theorem calculatedBatches_sorted_stable:
  assumes "list_all (\<lambda>b. validStartDate (startDate b)) bs"
  shows "\<exists>cs. calculatedBatches bs = Some cs
       \<and> sorted_wrt notEarlier cs
       \<and> mset cs = mset (map deriveBatch bs)
       \<and> (\<forall>d. filter (\<lambda>c. startDate c = d) cs
              = map deriveBatch (filter (\<lambda>b. startDate b = d) bs))"
proof -
  let ?key = "\<lambda>c. - startTime c"
  let ?cs = "sort_key ?key (map deriveBatch bs)"
  have eq: "calculatedBatches bs = Some ?cs"
    using assms by (rule calculatedBatches_sort_key)
  have valid: "list_all (\<lambda>c. validStartDate (startDate c)) ?cs"
    using valid_derived [OF assms] by (simp add: list_all_iff)
  have "sorted (map ?key ?cs)"
    by simp
  with valid have s: "sorted_wrt notEarlier ?cs"
    by (rule sorted_desc)
  have p: "mset ?cs = mset (map deriveBatch bs)"
    by simp
  have "filter (\<lambda>c. startTime c = k) ?cs
      = filter (\<lambda>c. startTime c = k) (map deriveBatch bs)" for k
    using sort_key_stable [of ?key "- k" "map deriveBatch bs"] by simp
  then have "filter (\<lambda>c. startDate c = d) ?cs
      = filter (\<lambda>c. startDate c = d) (map deriveBatch bs)" for d
    by (rule stable_by_startDate)
  then have st: "\<forall>d. filter (\<lambda>c. startDate c = d) ?cs
              = map deriveBatch (filter (\<lambda>b. startDate b = d) bs)"
    by (simp add: filter_map comp_def startDate_deriveBatch)
  from eq s p st show ?thesis
    by blast
qed


text \<open>
  Witness for C4, amended: the demonstration batches followed by a sixth batch that
  starts on the same day as the third.  The result is in the order 5, 4, 3, 6, 2, 1: most
  recent first, and the two batches of 10 October in input order.
\<close>

theorem calculatedBatches_sorted_stable_witness:
  "list_all (\<lambda>b. validStartDate (startDate b)) batches_with_tie
   \<and> sorted_wrt notEarlier (the (calculatedBatches batches_with_tie))
   \<and> map batch_id (the (calculatedBatches batches_with_tie))
       = [''5'', ''4'', ''3'', ''6'', ''2'', ''1'']
   \<and> map batch_id (filter (\<lambda>c. startDate c = ''2023-10-10'') (the (calculatedBatches batches_with_tie)))
       = [''3'', ''6'']"
proof -
  have v: "list_all (\<lambda>b. validStartDate (startDate b)) batches_with_tie"
    by code_simp
  from calculatedBatches_sorted_stable [OF v] obtain cs
    where cs: "calculatedBatches batches_with_tie = Some cs"
      and s: "sorted_wrt notEarlier cs"
      and f: "filter (\<lambda>c. startDate c = ''2023-10-10'') cs
          = map deriveBatch (filter (\<lambda>b. startDate b = ''2023-10-10'') batches_with_tie)"
    by blast
  have "map batch_id
      (sort_key (\<lambda>b. - (case Date_getTime (startDate b) of
                           Finite t \<Rightarrow> t | NaN \<Rightarrow> 0 | Unmodelled \<Rightarrow> 0)) batches_with_tie)
      = [''5'', ''4'', ''3'', ''6'', ''2'', ''1'']"
    by code_simp
  then have o: "map batch_id (the (calculatedBatches batches_with_tie))
      = [''5'', ''4'', ''3'', ''6'', ''2'', ''1'']"
    by (simp add: calculatedBatches_by_date [OF v] startTime_deriveBatch comp_def
        batch_id_deriveBatch)
  have "map batch_id (filter (\<lambda>b. startDate b = ''2023-10-10'') batches_with_tie) = [''3'', ''6'']"
    by code_simp
  then have "map batch_id (map deriveBatch (filter (\<lambda>b. startDate b = ''2023-10-10'') batches_with_tie))
      = [''3'', ''6'']"
    by (simp add: comp_def batch_id_deriveBatch)
  with v s o show ?thesis
    by (simp only: cs option.sel f simp_thms)
qed


section \<open>Properties of the per-machine aggregation\<close>






section \<open>Properties of the seeding effect\<close>

lemma seedEffect_seeds:
  "settings st \<noteq> None \<Longrightarrow> batches st = []
   \<Longrightarrow> seedEffect st = st\<lparr>batches := seeded_batches, batchTypes := MOCK_BATCH_TYPES\<rparr>"
  by (simp add: seedEffect_def)

lemma seedEffect_idle: "settings st = None \<or> batches st \<noteq> [] \<Longrightarrow> seedEffect st = st"
  by (auto simp: seedEffect_def)

lemma seeded_batches_nonempty: "seeded_batches \<noteq> []"
  by (simp add: seeded_batches_def MOCK_BATCHES_def)

lemma seedEffect_idem: "seedEffect (seedEffect st) = seedEffect st"
  by (simp add: seedEffect_def seeded_batches_nonempty)

lemma filter_all_same_id: "list_all (\<lambda>b. batch_id b = i) bs \<Longrightarrow> filter (\<lambda>b. batch_id b \<noteq> i) bs = []"
  by (induction bs) auto

text \<open>
  C10.  Whenever settings are present and the batch list is empty, the effect sets the
  batch types to exactly the six fixed mock types, whatever batch types \<open>userTypes\<close> the
  user had defined: the test looks at the settings and the batch list only.
\<close>

theorem seedEffect_replaces_batchTypes:
  assumes "settings st \<noteq> None" and "batches st = []"
  shows "batchTypes (seedEffect (st\<lparr>batchTypes := userTypes\<rparr>)) = MOCK_BATCH_TYPES
       \<and> length MOCK_BATCH_TYPES = 6"
  using assms by (simp add: seedEffect_def MOCK_BATCH_TYPES_def)

text \<open>
  Witness for C10: the wizard has just been completed, the batch list is empty and the
  user owns one batch type; after the effect the six mock types are there and the user's
  type is not among them.
\<close>

theorem seedEffect_replaces_batchTypes_witness:
  "settings (handleComplete wizard_defaults fresh_state) \<noteq> None
   \<and> batches (handleComplete wizard_defaults fresh_state) = []
   \<and> batchTypes (seedEffect ((handleComplete wizard_defaults fresh_state)\<lparr>batchTypes := [user_type]\<rparr>))
       = MOCK_BATCH_TYPES
   \<and> user_type \<notin> set MOCK_BATCH_TYPES"
proof -
  have s: "settings (handleComplete wizard_defaults fresh_state) \<noteq> None"
    by (simp add: handleComplete_def wizard_defaults_def fresh_state_def)
  have b: "batches (handleComplete wizard_defaults fresh_state) = []"
    by (simp add: handleComplete_def wizard_defaults_def fresh_state_def)
  have u: "user_type \<notin> set MOCK_BATCH_TYPES"
    by (simp add: MOCK_BATCH_TYPES_def user_type_def)
  from seedEffect_replaces_batchTypes [OF s b, of "[user_type]"] s b u show ?thesis
    by blast
qed

text \<open>
  C3, as stated: the demonstration data is seeded at most once, and after the user has
  deleted every batch it does not reappear.  This fails: starting from the seeded state the
  user deletes the batches 1 to 4 and then batch 5; the list is empty for a moment, the
  effect runs, and the five demonstration batches are back.
\<close>

theorem all_deleted_reseeds_counterexample:
  "batches (deleteBatch ''5'' four_deleted) = []
   \<and> batches (afterRender (deleteBatch ''5'') four_deleted) = seeded_batches
   \<and> length seeded_batches = 5"
  by code_simp

text \<open>
  C3, amended: seeding follows the current state.  Whenever settings are present and the
  batch list is empty, the effect replaces the batch list by the five fixed mock batches
  and the batch types by the six mock types; when settings are absent or the list is
  non-empty it changes nothing, so it does nothing a second time once it has seeded.
  Hence deleting the last remaining batches (all those with id \<open>i\<close>) while settings are
  present brings the mock data back.
\<close>

theorem seedEffect_by_emptiness:
  "(settings st \<noteq> None \<and> batches st = [] \<longrightarrow>
      batches (seedEffect st) = seeded_batches \<and> batchTypes (seedEffect st) = MOCK_BATCH_TYPES)
   \<and> (settings st = None \<or> batches st \<noteq> [] \<longrightarrow> seedEffect st = st)
   \<and> seedEffect (seedEffect st) = seedEffect st
   \<and> (settings st \<noteq> None \<and> list_all (\<lambda>b. batch_id b = i) (batches st) \<longrightarrow>
        batches (afterRender (deleteBatch i) st) = seeded_batches)"
proof -
  have a: "settings st \<noteq> None \<and> batches st = [] \<longrightarrow>
      batches (seedEffect st) = seeded_batches \<and> batchTypes (seedEffect st) = MOCK_BATCH_TYPES"
    by (simp add: seedEffect_seeds)
  have b: "settings st = None \<or> batches st \<noteq> [] \<longrightarrow> seedEffect st = st"
    using seedEffect_idle by blast
  have c: "settings st \<noteq> None \<and> list_all (\<lambda>b. batch_id b = i) (batches st) \<longrightarrow>
        batches (afterRender (deleteBatch i) st) = seeded_batches"
    by (simp add: afterRender_def deleteBatch_def seedEffect_def filter_all_same_id)
  from a b c seedEffect_idem [of st] show ?thesis
    by blast
qed

text \<open>
  Witness for C3, amended: the state right after the wizard (seeded), the first-start
  state without settings (untouched), and the deletion of the last batch (seeded again).
\<close>

theorem seedEffect_by_emptiness_witness:
  "settings (handleComplete wizard_defaults fresh_state) \<noteq> None
   \<and> batches (handleComplete wizard_defaults fresh_state) = []
   \<and> batches (seedEffect (handleComplete wizard_defaults fresh_state)) = seeded_batches
   \<and> settings fresh_state = None
   \<and> seedEffect fresh_state = fresh_state
   \<and> settings four_deleted \<noteq> None
   \<and> list_all (\<lambda>b. batch_id b = ''5'') (batches four_deleted)
   \<and> batches (afterRender (deleteBatch ''5'') four_deleted) = seeded_batches"
proof -
  have s: "settings (handleComplete wizard_defaults fresh_state) \<noteq> None"
    by (simp add: handleComplete_def wizard_defaults_def fresh_state_def)
  have b: "batches (handleComplete wizard_defaults fresh_state) = []"
    by (simp add: handleComplete_def wizard_defaults_def fresh_state_def)
  have f: "settings fresh_state = None"
    by (simp add: fresh_state_def)
  have d: "settings four_deleted \<noteq> None"
    by code_simp
  have l: "list_all (\<lambda>b. batch_id b = ''5'') (batches four_deleted)"
    by code_simp
  from seedEffect_by_emptiness [of "handleComplete wizard_defaults fresh_state" "''5''"]
    seedEffect_by_emptiness [of fresh_state "''5''"]
    seedEffect_by_emptiness [of four_deleted "''5''"] s b f d l
  show ?thesis
    by blast
qed


section \<open>Properties of deleteBatch\<close>

lemma batches_deleteBatch:
  "batches (deleteBatch i st) = filter (\<lambda>b. batch_id b \<noteq> i) (batches st)"
  by (simp add: deleteBatch_def)

lemma filter_absent_id:
  "i \<notin> set (map batch_id bs) \<Longrightarrow> filter (\<lambda>b. batch_id b \<noteq> i) bs = bs"
  by (induction bs) auto

text \<open>
  C6, as stated: when no batch has the given id, deleting is a silent no-op, the batch
  list is unchanged and nothing is signalled.  The second part fails: no demonstration
  batch has the id \<open>99\<close>, no notification is pending, and deleting \<open>99\<close> raises the
  notification "Batch deleted successfully!".
\<close>

theorem deleteBatch_missing_id_counterexample:
  "''99'' \<notin> set (map batch_id (batches demo_state))
   \<and> notification demo_state = None
   \<and> notification (deleteBatch ''99'' demo_state) = Some ''Batch deleted successfully!''"
  by code_simp

text \<open>
  C6, amended: for every state and id, \<open>deleteBatch\<close> keeps exactly the batches with
  another id, unchanged and in their order, so no batch with that id remains; settings,
  batch types and theme are untouched.  When no batch has that id the batch list is
  unchanged and no error is signalled, but the operation still sets the same
  notification "Batch deleted successfully!" as a deletion that removed something.
\<close>

theorem deleteBatch_effect:
  "batches (deleteBatch i st) = filter (\<lambda>b. batch_id b \<noteq> i) (batches st)
   \<and> i \<notin> set (map batch_id (batches (deleteBatch i st)))
   \<and> (i \<notin> set (map batch_id (batches st)) \<longrightarrow> batches (deleteBatch i st) = batches st)
   \<and> settings (deleteBatch i st) = settings st
   \<and> batchTypes (deleteBatch i st) = batchTypes st
   \<and> theme (deleteBatch i st) = theme st
   \<and> notification (deleteBatch i st) = Some ''Batch deleted successfully!''"
proof -
  have a: "i \<notin> set (map batch_id (batches (deleteBatch i st)))"
    by (auto simp: batches_deleteBatch)
  have b: "i \<notin> set (map batch_id (batches st)) \<longrightarrow> batches (deleteBatch i st) = batches st"
    by (simp only: batches_deleteBatch) (blast intro: filter_absent_id)
  have c: "settings (deleteBatch i st) = settings st \<and> batchTypes (deleteBatch i st) = batchTypes st
      \<and> theme (deleteBatch i st) = theme st
      \<and> notification (deleteBatch i st) = Some ''Batch deleted successfully!''"
    by (simp add: deleteBatch_def)
  from a b c batches_deleteBatch [of i st] show ?thesis
    by blast
qed

text \<open>
  Witness for C6, amended: deleting batch 3 of the demonstration data, and deleting the
  id 99 that no batch has.
\<close>

theorem deleteBatch_effect_witness:
  "map batch_id (batches (deleteBatch ''3'' demo_state)) = [''1'', ''2'', ''4'', ''5'']
   \<and> ''99'' \<notin> set (map batch_id (batches demo_state))
   \<and> batches (deleteBatch ''99'' demo_state) = batches demo_state
   \<and> notification (deleteBatch ''99'' demo_state) = Some ''Batch deleted successfully!''"
proof -
  have m: "''99'' \<notin> set (map batch_id (batches demo_state))"
    by code_simp
  have f: "map batch_id (filter (\<lambda>b. batch_id b \<noteq> ''3'') (batches demo_state))
      = [''1'', ''2'', ''4'', ''5'']"
    by code_simp
  from deleteBatch_effect [of "''3''" demo_state]
  have "batches (deleteBatch ''3'' demo_state) = filter (\<lambda>b. batch_id b \<noteq> ''3'') (batches demo_state)"
    by blast
  with f have a: "map batch_id (batches (deleteBatch ''3'' demo_state)) = [''1'', ''2'', ''4'', ''5'']"
    by (simp only:)
  from deleteBatch_effect [of "''99''" demo_state] m
  have "batches (deleteBatch ''99'' demo_state) = batches demo_state
      \<and> notification (deleteBatch ''99'' demo_state) = Some ''Batch deleted successfully!''"
    by blast
  with a m show ?thesis
    by blast
qed


section \<open>Properties of addBatch\<close>

text \<open>The decimal numeral determines the number: different clock values give different ids.\<close>

lemma of_char_digitChar: "d < 10 \<Longrightarrow> (of_char (digitChar d) :: nat) = 48 + d"
  by (simp add: digitChar_def)

lemma digitChar_inj:
  assumes "a < 10" and "b < 10" and "digitChar a = digitChar b"
  shows "a = b"
proof -
  from assms(3) have "(of_char (digitChar a) :: nat) = of_char (digitChar b)"
    by simp
  with assms(1,2) show ?thesis
    by (simp add: of_char_digitChar)
qed

lemma natToString_nonempty: "natToString n \<noteq> []"
  by (subst natToString.simps) simp

lemma natToString_digits: "c \<in> set (natToString n) \<Longrightarrow> \<exists>d<10. c = digitChar d"
proof (induction n rule: natToString.induct)
  case (1 n)
  show ?case
  proof (cases "n < 10")
    case True
    with "1.prems" show ?thesis
      by (subst (asm) natToString.simps) auto
  next
    case False
    with "1.prems" have "c \<in> set (natToString (n div 10)) \<or> c = digitChar (n mod 10)"
      by (subst (asm) natToString.simps) auto
    with False "1.IH" show ?thesis
      by (metis mod_less_divisor zero_less_numeral)
  qed
qed

lemma natToString_inj: "natToString m = natToString n \<Longrightarrow> m = n"
proof (induction m arbitrary: n rule: natToString.induct)
  case (1 m)
  show ?case
  proof (cases "m < 10")
    case m: True
    show ?thesis
    proof (cases "n < 10")
      case True
      with m "1.prems" show ?thesis
        by (subst (asm) (1 2) natToString.simps) (simp add: digitChar_inj)
    next
      case False
      with m "1.prems" have "[digitChar m] = natToString (n div 10) @ [digitChar (n mod 10)]"
        by (subst (asm) (1 2) natToString.simps) simp
      then show ?thesis
        using natToString_nonempty [of "n div 10"] by simp
    qed
  next
    case m: False
    show ?thesis
    proof (cases "n < 10")
      case True
      with m "1.prems" have "natToString (m div 10) @ [digitChar (m mod 10)] = [digitChar n]"
        by (subst (asm) (1 2) natToString.simps) simp
      then show ?thesis
        using natToString_nonempty [of "m div 10"] by simp
    next
      case False
      with m "1.prems" have
        "natToString (m div 10) @ [digitChar (m mod 10)] = natToString (n div 10) @ [digitChar (n mod 10)]"
        by (subst (asm) (1 2) natToString.simps) simp
      then have "natToString (m div 10) = natToString (n div 10)"
        and "digitChar (m mod 10) = digitChar (n mod 10)"
        by simp_all
      with m "1.IH" have "m div 10 = n div 10" and "m mod 10 = n mod 10"
        by (auto intro: digitChar_inj)
      then show ?thesis
        by (metis div_mult_mod_eq)
    qed
  qed
qed

lemma minus_not_digit: "d < 10 \<Longrightarrow> CHR ''-'' \<noteq> digitChar d"
proof
  assume "d < 10" and "CHR ''-'' = digitChar d"
  then have "(of_char (CHR ''-'') :: nat) = 48 + d"
    by (simp add: of_char_digitChar)
  then show False
    by simp
qed

lemma natToString_no_minus: "natToString n \<noteq> CHR ''-'' # cs"
proof
  assume "natToString n = CHR ''-'' # cs"
  then have "CHR ''-'' \<in> set (natToString n)"
    by simp
  then obtain d where "d < 10" and "CHR ''-'' = digitChar d"
    using natToString_digits by blast
  then show False
    using minus_not_digit by blast
qed

lemma toString_inj: "toString a = toString b \<Longrightarrow> a = b"
proof (cases "a < 0"; cases "b < 0")
  assume "toString a = toString b" and "a < 0" and "b < 0"
  then have "nat (- a) = nat (- b)"
    by (simp add: toString_def natToString_inj)
  with \<open>a < 0\<close> \<open>b < 0\<close> show ?thesis by simp
next
  assume "toString a = toString b" and "a < 0" and "\<not> b < 0"
  then show ?thesis
    using natToString_no_minus [of "nat b" "natToString (nat (- a))"] by (simp add: toString_def)
next
  assume "toString a = toString b" and "\<not> a < 0" and "b < 0"
  then show ?thesis
    using natToString_no_minus [of "nat a" "natToString (nat (- b))"] by (simp add: toString_def)
next
  assume "toString a = toString b" and "\<not> a < 0" and "\<not> b < 0"
  then have "nat a = nat b"
    by (simp add: toString_def natToString_inj)
  with \<open>\<not> a < 0\<close> \<open>\<not> b < 0\<close> show ?thesis by simp
qed

lemma batches_addBatch:
  "batches (addBatch now nb st) =
     nb\<lparr>batch_id := toString now, status := InProgress, name := Some []\<rparr> # batches st"
  by (simp add: addBatch_def Let_def)

text \<open>
  C7, as stated: for every input, \<open>addBatch\<close> assigns an id distinct from every existing
  batch's id.  This fails when the clock returns a value it has returned before: two calls
  at the same millisecond give the second batch the id of the first.
\<close>

theorem addBatch_same_clock_counterexample:
  "batch_id (hd (batches (addBatch 1700000000000 (hd MOCK_BATCHES)
       (addBatch 1700000000000 (hd MOCK_BATCHES) demo_state))))
   \<in> set (map batch_id (batches (addBatch 1700000000000 (hd MOCK_BATCHES) demo_state)))"
  by (simp add: batches_addBatch)

text \<open>
  C7, amended: \<open>addBatch\<close> assigns the decimal numeral of the current clock value as
  id, forces the status to In Progress (and the name to the empty string) whatever the
  input carries, and puts the batch in front of the list, leaving the existing batches
  unchanged.  The new id is distinct from every existing id when no existing batch has
  that numeral as its id (the code does not check); ids that are pairwise distinct then
  stay so, and different clock values give different ids.
\<close>

theorem addBatch_effect:
  "batches (addBatch now nb st) =
     nb\<lparr>batch_id := toString now, status := InProgress, name := Some []\<rparr> # batches st
   \<and> batch_id (hd (batches (addBatch now nb st))) = toString now
   \<and> status (hd (batches (addBatch now nb st))) = InProgress
   \<and> tl (batches (addBatch now nb st)) = batches st
   \<and> (toString now \<notin> set (map batch_id (batches st)) \<longrightarrow>
        batch_id (hd (batches (addBatch now nb st))) \<notin> set (map batch_id (batches st)))
   \<and> (distinct (map batch_id (batches st)) \<and> toString now \<notin> set (map batch_id (batches st)) \<longrightarrow>
        distinct (map batch_id (batches (addBatch now nb st))))
   \<and> (\<forall>earlier. earlier \<noteq> now \<longrightarrow> toString earlier \<noteq> toString now)"
proof -
  have inj: "\<forall>earlier. earlier \<noteq> now \<longrightarrow> toString earlier \<noteq> toString now"
    using toString_inj by blast
  have rest: "batch_id (hd (batches (addBatch now nb st))) = toString now
      \<and> status (hd (batches (addBatch now nb st))) = InProgress
      \<and> tl (batches (addBatch now nb st)) = batches st
      \<and> (toString now \<notin> set (map batch_id (batches st)) \<longrightarrow>
           batch_id (hd (batches (addBatch now nb st))) \<notin> set (map batch_id (batches st)))
      \<and> (distinct (map batch_id (batches st)) \<and> toString now \<notin> set (map batch_id (batches st)) \<longrightarrow>
           distinct (map batch_id (batches (addBatch now nb st))))"
    by (simp add: batches_addBatch)
  from inj rest batches_addBatch [of now nb st] show ?thesis
    by blast
qed

text \<open>
  Witness for C7, amended: a batch is added to the demonstration data at clock value 17,
  with an input that carries the status Completed.
\<close>

theorem addBatch_effect_witness:
  "toString 17 \<notin> set (map batch_id (batches demo_state))
   \<and> distinct (map batch_id (batches demo_state))
   \<and> status ((MOCK_BATCHES ! 1)\<lparr>status := Completed\<rparr>) = Completed
   \<and> status (hd (batches (addBatch 17 ((MOCK_BATCHES ! 1)\<lparr>status := Completed\<rparr>) demo_state))) = InProgress
   \<and> batch_id (hd (batches (addBatch 17 ((MOCK_BATCHES ! 1)\<lparr>status := Completed\<rparr>) demo_state)))
        \<notin> set (map batch_id (batches demo_state))
   \<and> distinct (map batch_id (batches (addBatch 17 ((MOCK_BATCHES ! 1)\<lparr>status := Completed\<rparr>) demo_state)))
   \<and> toString 16 \<noteq> toString 17"
proof -
  have f: "toString 17 \<notin> set (map batch_id (batches demo_state))"
    by code_simp
  have d: "distinct (map batch_id (batches demo_state))"
    by code_simp
  have c: "status ((MOCK_BATCHES ! 1)\<lparr>status := Completed\<rparr>) = Completed"
    by simp
  have n: "(16::int) \<noteq> 17"
    by simp
  from addBatch_effect [of 17 "(MOCK_BATCHES ! 1)\<lparr>status := Completed\<rparr>" demo_state] f d c n
  show ?thesis
    by blast
qed


section \<open>Properties of handleAddBatchType\<close>

lemma existing_iff:
  "List.member (existingBatchNumbers st) (toUpperCase s)
   \<longleftrightarrow> list_ex (\<lambda>bt. equalIgnoringCase (type_batchNumber bt) s) (batchTypes st)"
  by (force simp: existingBatchNumbers_def equalIgnoringCase_def list_ex_iff image_iff)

text \<open>
  C8, as stated: a new batch type whose batch number equals an existing one up to case is
  rejected, and one with a distinct batch number succeeds and appears in the list.  The
  second part fails for the empty batch number: no demonstration type has it, and the
  submission is rejected, the list staying as it was.
\<close>

theorem empty_batchNumber_counterexample:
  "\<not> list_ex (\<lambda>bt. equalIgnoringCase (type_batchNumber bt) []) (batchTypes demo_state)
   \<and> batchTypes (handleAddBatchType 17 [] ''#14b8a6'' demo_state) = batchTypes demo_state"
  by code_simp

text \<open>
  C8, amended: the submitted text is trimmed of surrounding white space first.  If the
  trimmed text is empty, or equals the batch number of an existing type up to case, the
  submission is rejected and the list of batch types is unchanged.  Otherwise it succeeds
  and a type with the trimmed, upper-cased batch number is appended to the list.
\<close>

theorem handleAddBatchType_effect:
  "(trim n = [] \<longrightarrow> batchTypes (handleAddBatchType now n c st) = batchTypes st)
   \<and> (list_ex (\<lambda>bt. equalIgnoringCase (type_batchNumber bt) (trim n)) (batchTypes st) \<longrightarrow>
        batchTypes (handleAddBatchType now n c st) = batchTypes st)
   \<and> (trim n \<noteq> [] \<and> \<not> list_ex (\<lambda>bt. equalIgnoringCase (type_batchNumber bt) (trim n)) (batchTypes st) \<longrightarrow>
        batchTypes (handleAddBatchType now n c st) =
          batchTypes st @ [\<lparr>type_id = toString now, type_batchNumber = toUpperCase (trim n), type_color = c\<rparr>])"
proof -
  have a: "trim n = [] \<longrightarrow> batchTypes (handleAddBatchType now n c st) = batchTypes st"
    by (simp add: handleAddBatchType_def)
  have b: "list_ex (\<lambda>bt. equalIgnoringCase (type_batchNumber bt) (trim n)) (batchTypes st) \<longrightarrow>
        batchTypes (handleAddBatchType now n c st) = batchTypes st"
    unfolding existing_iff [symmetric] by (simp add: handleAddBatchType_def)
  have c: "trim n \<noteq> [] \<and> \<not> list_ex (\<lambda>bt. equalIgnoringCase (type_batchNumber bt) (trim n)) (batchTypes st) \<longrightarrow>
        batchTypes (handleAddBatchType now n c st) =
          batchTypes st @ [\<lparr>type_id = toString now, type_batchNumber = toUpperCase (trim n), type_color = c\<rparr>]"
    unfolding existing_iff [symmetric] by (simp add: handleAddBatchType_def addBatchType_def Let_def)
  from a b c show ?thesis
    by blast
qed

text \<open>
  Witness for C8, amended: on the demonstration types a blank submission and
  \<open>acr001\<close> (an existing number in lower case, with spaces around it) are rejected,
  and \<open>winter-2\<close> is appended as \<open>WINTER-2\<close>.
\<close>

theorem handleAddBatchType_effect_witness:
  "trim ''   '' = []
   \<and> batchTypes (handleAddBatchType 17 ''   '' ''#14b8a6'' demo_state) = batchTypes demo_state
   \<and> list_ex (\<lambda>bt. equalIgnoringCase (type_batchNumber bt) (trim '' acr001 '')) (batchTypes demo_state)
   \<and> batchTypes (handleAddBatchType 17 '' acr001 '' ''#14b8a6'' demo_state) = batchTypes demo_state
   \<and> trim '' winter-2 '' \<noteq> []
   \<and> \<not> list_ex (\<lambda>bt. equalIgnoringCase (type_batchNumber bt) (trim '' winter-2 '')) (batchTypes demo_state)
   \<and> batchTypes (handleAddBatchType 17 '' winter-2 '' ''#14b8a6'' demo_state) =
       batchTypes demo_state @
         [\<lparr>type_id = toString 17, type_batchNumber = toUpperCase (trim '' winter-2 ''),
           type_color = ''#14b8a6''\<rparr>]"
proof -
  have e: "trim ''   '' = []"
    by code_simp
  have x: "list_ex (\<lambda>bt. equalIgnoringCase (type_batchNumber bt) (trim '' acr001 '')) (batchTypes demo_state)"
    by code_simp
  have y: "trim '' winter-2 '' \<noteq> []"
    by code_simp
  have z: "\<not> list_ex (\<lambda>bt. equalIgnoringCase (type_batchNumber bt) (trim '' winter-2 '')) (batchTypes demo_state)"
    by code_simp
  from handleAddBatchType_effect [of "''   ''" 17 "''#14b8a6''" demo_state]
    handleAddBatchType_effect [of "'' acr001 ''" 17 "''#14b8a6''" demo_state]
    handleAddBatchType_effect [of "'' winter-2 ''" 17 "''#14b8a6''" demo_state] e x y z
  show ?thesis
    by blast
qed


section \<open>Storing settings\<close>

text \<open>
  C9.  Every path that stores settings is claimed to validate \<open>numberOfMachines \<ge> 1\<close>
  first.  The code at a failing input: the wizard's guard is \<open>numberOfMachines > 0\<close>, so
  it stores the machine count \<open>1/2\<close>, which is not \<open>\<ge> 1\<close>; and the handler of the
  settings form stores whatever form data it is given, for instance the count \<open>0\<close> (the
  form's only guard is the \<^verbatim>\<open>min="1"\<close> attribute of its input, outside the handler).
\<close>

theorem handleComplete_stores_fraction:
  "settings (handleComplete \<lparr>companyName = ''Geetha Tex'', numberOfMachines = 1 / 2\<rparr> fresh_state)
     = Some \<lparr>companyName = ''Geetha Tex'', numberOfMachines = 1 / 2\<rparr>
   \<and> \<not> (1 \<le> numberOfMachines \<lparr>companyName = ''Geetha Tex'', numberOfMachines = 1 / 2\<rparr>)
   \<and> settings (handleSettingsSubmit \<lparr>companyName = ''Geetha Tex'', numberOfMachines = 0\<rparr> demo_state)
     = Some \<lparr>companyName = ''Geetha Tex'', numberOfMachines = 0\<rparr>"
  by (simp add: handleComplete_def handleSettingsSubmit_def)

end
